theory Spec2Isabelle
  imports Main
begin

section \<open>Symbol model\<close>

text \<open>
  Modelled from the spec: the members of the enums \<open>SymbolKind\<close> and \<open>SymbolModifier\<close>,
  which section 3 of the specification lists. The enums are declared in \<open>symbol.ts\<close>,
  which is not among the sources; only their uses are. They are flag enums: every member
  is one bit of its own, so \<open>x.kind & (A | B | C)\<close> is non-zero exactly when the kind is
  one of \<open>A\<close>, \<open>B\<close>, \<open>C\<close>, and \<open>x.modifiers & M\<close> is non-zero exactly when the modifier
  \<open>M\<close> is set. A symbol's kind is one member, its modifiers are a set of members.
\<close>

datatype SymbolKind =
  Namespace | Class | Interface | Trait | Function | Method | Property
  | ClassConstant | Constant | Parameter | Variable

datatype SymbolModifier =
  Public | Protected | Private | Static | Abstract | Final | Magic
  | ReadOnly | WriteOnly | Anonymous | Use

text \<open>
  \<open>TypeString\<close> is a class of \<open>symbol.ts\<close> as well. The reader only builds type strings,
  by \<open>new TypeString(text)\<close> and by \<open>t.merge(text)\<close>; a value is represented here by the
  way it was built, which fixes nothing about what \<open>merge\<close> computes.
\<close>

datatype TypeString =
  TypeString_new string
  | TypeString_merge TypeString string

text \<open>Of a symbol's \<open>doc\<close> the sources only test the presence.\<close>

datatype PhpSymbolDoc = PhpSymbolDoc (doc_description: string)

text \<open>
  The fields of \<open>PhpSymbol\<close> that the sources read or write. \<open>associated\<close> and \<open>children\<close>
  may be absent (\<open>undefined\<close>), and so may \<open>type\<close>, \<open>description\<close> and \<open>doc\<close>. The elements
  of \<open>associated\<close> are stubs: symbols of which only the name is used, to be looked up in
  the symbol store.
\<close>

datatype PhpSymbol = PhpSymbol
  (kind: SymbolKind)
  (name: string)
  (modifiers: "SymbolModifier set")
  (type: "TypeString option")
  (description: "string option")
  (doc: "PhpSymbolDoc option")
  (associated: "PhpSymbol list option")
  (children: "PhpSymbol list option")

text \<open>\<open>PhpSymbol.isClassLike\<close>: the kind is Class, Interface or Trait.\<close>

definition isClassLike :: "PhpSymbol \<Rightarrow> bool" where
  "isClassLike s = (kind s \<in> {Class, Interface, Trait})"

datatype error =
  InvalidArgument    \<comment> \<open>\<open>throw new Error('Invalid Argument')\<close>\<close>
  | DuplicateKey     \<comment> \<open>\<open>throw new Error('Duplicate key')\<close>\<close>
  | TypeError        \<comment> \<open>a property read of \<open>undefined\<close> or \<open>null\<close>\<close>
  | RangeError       \<comment> \<open>the call stack is exhausted by a recursion without end\<close>
  | IllTyped         \<comment> \<open>not an error of the source: a value that does not have the type the
                         source declares for it, where the model does not follow the code\<close>

section \<open>Plain objects used as dictionaries\<close>

text \<open>
  \<open>_mergeMembers\<close> keeps its index in a plain object (\<open>let map = {}\<close>) and reads it with
  \<open>map[s.name]\<close>. A plain object inherits the properties of \<open>Object.prototype\<close>, so for
  these keys the read is never \<open>undefined\<close>, whatever was stored.
\<close>

definition objectPrototypeKeys :: "string list" where
  "objectPrototypeKeys =
    [''constructor'', ''hasOwnProperty'', ''isPrototypeOf'', ''propertyIsEnumerable'',
     ''toLocaleString'', ''toString'', ''valueOf'', ''__proto__'',
     ''__defineGetter__'', ''__defineSetter__'', ''__lookupGetter__'', ''__lookupSetter__'']"

section \<open>Symbol store\<close>

text \<open>
  Modelled from the spec: the symbol store (\<open>symbolStore.ts\<close> is not among the sources).
  The specification gives it as a mapping from a fully qualified name to a list of
  symbols, and \<open>find(fqn, predicate)\<close> as the symbols under that name that satisfy the
  predicate. The store is finite; the case folding of its keys is left out.
\<close>

type_synonym SymbolStore = "(string \<times> PhpSymbol list) list"

definition find_store :: "SymbolStore \<Rightarrow> string \<Rightarrow> (PhpSymbol \<Rightarrow> bool) \<Rightarrow> PhpSymbol list" where
  "find_store store fqn predicate =
     filter predicate (case map_of store fqn of None \<Rightarrow> [] | Some found \<Rightarrow> found)"

text \<open>All symbols of the store: a finite set.\<close>

definition store_symbols :: "SymbolStore \<Rightarrow> PhpSymbol set" where
  "store_symbols store = (\<Union>entry \<in> set store. set (snd entry))"

section \<open>Type aggregate (typeAggregate.ts)\<close>

datatype MemberMergeStrategy = NoneStrategy | Override | Documented | Base

record TypeAggregate =
  symbolStore :: SymbolStore
  symbol :: PhpSymbol

text \<open>
  The constructor. Its argument may be \<open>null\<close>; it throws unless the symbol is there and
  its kind is Class, Interface or Trait.
\<close>

definition TypeAggregate_new :: "SymbolStore \<Rightarrow> PhpSymbol option \<Rightarrow> error + TypeAggregate" where
  "TypeAggregate_new store root =
     (case root of
        None \<Rightarrow> Inl InvalidArgument
      | Some s \<Rightarrow>
          if \<not> (kind s = Class \<or> kind s = Interface \<or> kind s = Trait)
          then Inl InvalidArgument
          else Inr \<lparr>symbolStore = store, symbol = s\<rparr>)"

subsection \<open>The associated set\<close>

text \<open>
  The \<open>while\<close> loop of \<open>_getAssociated\<close>: \<open>queue\<close> holds the stubs still to resolve,
  \<open>collected\<close> is \<open>this._associated\<close>. A stub is resolved to the first class-like symbol
  the store has under its name; a stub that resolves to nothing, or to a symbol that is
  collected already, is dropped. Symbols are compared as values, where the source
  compares object identities: a symbol of the store is identified by its contents.
\<close>

function getAssociated_loop ::
  "SymbolStore \<Rightarrow> PhpSymbol list \<Rightarrow> PhpSymbol list \<Rightarrow> PhpSymbol list" where
  "getAssociated_loop store [] collected = collected"
| "getAssociated_loop store (stub # queue) collected =
     (case find_store store (name stub) isClassLike of
        [] \<Rightarrow> getAssociated_loop store queue collected
      | s # _ \<Rightarrow>
          if s \<in> set collected then getAssociated_loop store queue collected
          else getAssociated_loop store
                 (queue @ (case associated s of None \<Rightarrow> [] | Some a \<Rightarrow> a))
                 (collected @ [s]))"
  by pat_completeness auto

termination
proof (relation "measures [\<lambda>(store, queue, collected). card (store_symbols store - set collected),
                          \<lambda>(store, queue, collected). length queue]")
  show "wf (measures [\<lambda>(store, queue, collected). card (store_symbols store - set collected),
                      \<lambda>(store, queue, collected). length queue])"
    by simp
next
  fix store :: SymbolStore and stub queue collected
  assume "find_store store (name stub) isClassLike = []"
  show "((store, queue, collected), (store, stub # queue, collected))
        \<in> measures [\<lambda>(store, queue, collected). card (store_symbols store - set collected),
                    \<lambda>(store, queue, collected). length queue]"
    by simp
next
  fix store :: SymbolStore and stub queue collected s rest
  assume "find_store store (name stub) isClassLike = s # rest" "s \<in> set collected"
  show "((store, queue, collected), (store, stub # queue, collected))
        \<in> measures [\<lambda>(store, queue, collected). card (store_symbols store - set collected),
                    \<lambda>(store, queue, collected). length queue]"
    by simp
next
  fix store :: SymbolStore and stub queue collected s rest
  assume found: "find_store store (name stub) isClassLike = s # rest"
    and fresh: "s \<notin> set collected"
  have "s \<in> set (find_store store (name stub) isClassLike)"
    using found by simp
  then have "s \<in> store_symbols store"
    by (cases "map_of store (name stub)")
       (force simp: find_store_def store_symbols_def dest: map_of_SomeD)+
  moreover have "finite (store_symbols store)"
    by (simp add: store_symbols_def)
  ultimately have "card (store_symbols store - set (collected @ [s]))
                   < card (store_symbols store - set collected)"
    using fresh by (intro psubset_card_mono) auto
  then show "((store, queue @ (case associated s of None \<Rightarrow> [] | Some a \<Rightarrow> a), collected @ [s]),
              (store, stub # queue, collected))
        \<in> measures [\<lambda>(store, queue, collected). card (store_symbols store - set collected),
                    \<lambda>(store, queue, collected). length queue]"
    by simp
qed

text \<open>
  \<open>_getAssociated\<close>. The result is cached in \<open>this._associated\<close>; it is a function of the
  store and of the root symbol, which is what the model computes.
\<close>

definition getAssociated :: "TypeAggregate \<Rightarrow> PhpSymbol list" where
  "getAssociated agg =
     (case associated (symbol agg) of
        None \<Rightarrow> []
      | Some a \<Rightarrow> if a = [] then [] else getAssociated_loop (symbolStore agg) a [])"

subsection \<open>Member filters\<close>

text \<open>
  What the variable \<open>predicate\<close> of \<open>_classMembers\<close> holds: its parameter as passed
  (\<open>undefined\<close> or the caller's function), or, after \<open>predicate = noPrivate\<close>, the closure
  \<open>noPrivate\<close>.
\<close>

datatype predicate_var =
  Undefined
  | Caller "PhpSymbol \<Rightarrow> bool"
  | NoPrivate

text \<open>
  The closure
  \<^verbatim>\<open>let noPrivate = (x) => !(x.modifiers & SymbolModifier.Private) && (!predicate || predicate(x));\<close>
  It reads the variable \<open>predicate\<close> when it is called, not when it is created: the
  argument \<open>predicate\<close> below is what the variable holds at the call. When the variable
  holds the closure itself, the call of \<open>predicate(x)\<close> is a call of \<open>noPrivate(x)\<close> again.
  The result is \<open>None\<close> when the call does not return.
\<close>

partial_function (option) noPrivate :: "predicate_var \<Rightarrow> PhpSymbol \<Rightarrow> bool option" where
  "noPrivate predicate x =
     (if Private \<in> modifiers x then Some False
      else case predicate of
             Undefined \<Rightarrow> Some True
           | Caller p \<Rightarrow> Some (p x)
           | NoPrivate \<Rightarrow> noPrivate predicate x)"

text \<open>
  \<open>Array.prototype.filter\<close> with a callback that may not return: the callback is called
  on every element, in order. A call that does not return exhausts the call stack, which
  the engine reports by throwing a \<open>RangeError\<close>.
\<close>

fun filter_calls :: "('a \<Rightarrow> bool option) \<Rightarrow> 'a list \<Rightarrow> error + 'a list" where
  "filter_calls f [] = Inr []"
| "filter_calls f (x # xs) =
     (case f x of
        None \<Rightarrow> Inl RangeError
      | Some keep \<Rightarrow>
          (case filter_calls f xs of
             Inl e \<Rightarrow> Inl e
           | Inr kept \<Rightarrow> Inr (if keep then x # kept else kept)))"

text \<open>
  \<open>predicate ? s.children.filter(predicate) : s.children\<close>, where \<open>var\<close> is what the
  variable \<open>predicate\<close> of \<open>_classMembers\<close> holds at that moment (the closure reads it)
  and \<open>predicate\<close> is the filter that is applied.
\<close>

definition filter_children ::
  "predicate_var \<Rightarrow> predicate_var \<Rightarrow> PhpSymbol list \<Rightarrow> error + PhpSymbol list" where
  "filter_children var predicate cs =
     (case predicate of
        Undefined \<Rightarrow> Inr cs
      | Caller p \<Rightarrow> Inr (filter p cs)
      | NoPrivate \<Rightarrow> filter_calls (noPrivate var) cs)"

text \<open>\<open>_interfaceMembers\<close>: the children of every symbol, filtered, in order.\<close>

fun interfaceMembers ::
  "predicate_var \<Rightarrow> PhpSymbol list \<Rightarrow> predicate_var \<Rightarrow> error + PhpSymbol list" where
  "interfaceMembers var [] predicate = Inr []"
| "interfaceMembers var (s # interfaces) predicate =
     (case children s of
        None \<Rightarrow> interfaceMembers var interfaces predicate
      | Some cs \<Rightarrow>
          (case filter_children var predicate cs of
             Inl e \<Rightarrow> Inl e
           | Inr kept \<Rightarrow>
               (case interfaceMembers var interfaces predicate of
                  Inl e \<Rightarrow> Inl e
                | Inr members \<Rightarrow> Inr (kept @ members))))"

definition traitMembers ::
  "predicate_var \<Rightarrow> PhpSymbol list \<Rightarrow> predicate_var \<Rightarrow> error + PhpSymbol list" where
  "traitMembers var traits predicate = interfaceMembers var traits predicate"

subsection \<open>Merging members by name\<close>

text \<open>
  The loop of \<open>_mergeMembers\<close>. \<open>index_of\<close> is the object \<open>map\<close>, from a name to the index
  of the member kept under it in \<open>merged\<close>. For a name that every object inherits,
  \<open>map[s.name]\<close> is an inherited function or object and not \<open>undefined\<close>, so the second
  branch is taken, where \<open>merged[index]\<close> is \<open>undefined\<close> and reading its \<open>modifiers\<close>
  throws a \<open>TypeError\<close>.
\<close>

fun mergeMembers_loop ::
  "MemberMergeStrategy \<Rightarrow> PhpSymbol list \<Rightarrow> (string \<rightharpoonup> nat) \<Rightarrow> PhpSymbol list
   \<Rightarrow> error + PhpSymbol list" where
  "mergeMembers_loop strategy [] index_of merged = Inr merged"
| "mergeMembers_loop strategy (s # symbols) index_of merged =
     (if name s \<in> set objectPrototypeKeys then Inl TypeError
      else case index_of (name s) of
        None \<Rightarrow>
          mergeMembers_loop strategy symbols (index_of(name s \<mapsto> length merged)) (merged @ [s])
      | Some index \<Rightarrow>
          if \<not> index < length merged then Inl TypeError
          else if (Magic \<in> modifiers (merged ! index) \<and> Magic \<notin> modifiers s)
                  \<or> (strategy = Documented \<and> doc (merged ! index) = None \<and> doc s \<noteq> None)
                  \<or> strategy = Base
          then mergeMembers_loop strategy symbols index_of (merged[index := s])
          else mergeMembers_loop strategy symbols index_of merged)"

definition mergeMembers :: "PhpSymbol list \<Rightarrow> MemberMergeStrategy \<Rightarrow> error + PhpSymbol list" where
  "mergeMembers symbols strategy =
     (if strategy = NoneStrategy then Inr symbols
      else mergeMembers_loop strategy symbols Map.empty [])"

subsection \<open>Members\<close>

text \<open>
  The \<open>for\<close> loop of \<open>_classMembers\<close>, with the variables it updates: \<open>predicate\<close>,
  \<open>members\<close> and \<open>traits\<close>. Every iteration ends with \<open>predicate = noPrivate\<close>.
\<close>

fun classMembers_loop ::
  "PhpSymbol list \<Rightarrow> predicate_var \<Rightarrow> PhpSymbol list \<Rightarrow> PhpSymbol list
   \<Rightarrow> error + (PhpSymbol list \<times> PhpSymbol list)" where
  "classMembers_loop [] predicate members traits = Inr (members, traits)"
| "classMembers_loop (s # assoc) predicate members traits =
     (if kind s = Trait then classMembers_loop assoc NoPrivate members (traits @ [s])
      else case children s of
        None \<Rightarrow> classMembers_loop assoc NoPrivate members traits
      | Some cs \<Rightarrow>
          (case filter_children predicate predicate cs of
             Inl e \<Rightarrow> Inl e
           | Inr kept \<Rightarrow> classMembers_loop assoc NoPrivate (members @ kept) traits))"

text \<open>
  \<open>_classMembers\<close>: after the loop \<open>predicate = noPrivate\<close> once more, the members are
  merged, and the members of the traits are appended, filtered by \<open>predicate\<close>.
\<close>

definition classMembers ::
  "PhpSymbol list \<Rightarrow> MemberMergeStrategy \<Rightarrow> predicate_var \<Rightarrow> error + PhpSymbol list" where
  "classMembers assoc strategy predicate =
     (case classMembers_loop assoc predicate [] [] of
        Inl e \<Rightarrow> Inl e
      | Inr (members, traits) \<Rightarrow>
          (case mergeMembers members strategy of
             Inl e \<Rightarrow> Inl e
           | Inr merged \<Rightarrow>
               (case traitMembers NoPrivate traits NoPrivate of
                  Inl e \<Rightarrow> Inl e
                | Inr trait_members \<Rightarrow> Inr (merged @ trait_members))))"

text \<open>
  \<open>members\<close>: the root is put in front of the associated symbols, and the kind of the root
  selects how the members are collected. Outside a call of \<open>_classMembers\<close> there is no
  closure, and the first argument of \<open>interfaceMembers\<close> is not read.
\<close>

definition members ::
  "TypeAggregate \<Rightarrow> MemberMergeStrategy \<Rightarrow> (PhpSymbol \<Rightarrow> bool) option \<Rightarrow> error + PhpSymbol list" where
  "members agg mergeStrategy predicate =
     (let assoc = symbol agg # getAssociated agg;
          p = (case predicate of None \<Rightarrow> Undefined | Some f \<Rightarrow> Caller f)
      in case kind (symbol agg) of
           Class \<Rightarrow> classMembers assoc mergeStrategy p
         | Interface \<Rightarrow> interfaceMembers Undefined assoc p
         | Trait \<Rightarrow> traitMembers Undefined assoc p
         | _ \<Rightarrow> Inr [])"

section \<open>Import table reader (visitors.ts)\<close>

text \<open>
  The flag of a use statement, use group or use element comes from the parser, which is
  an external package; \<open>_useFlagToSymbolKind\<close> tells three of its values apart from all
  others. The kind it returns is \<open>0\<close> (here \<open>None\<close>) for all others.
\<close>

datatype NonTerminalFlag = UseClass | UseConstant | UseFunction | OtherFlag

definition useFlagToSymbolKind :: "NonTerminalFlag \<Rightarrow> SymbolKind option" where
  "useFlagToSymbolKind flag =
     (case flag of
        UseClass \<Rightarrow> Some Class
      | UseConstant \<Rightarrow> Some Constant
      | UseFunction \<Rightarrow> Some Function
      | OtherFlag \<Rightarrow> None)"

text \<open>
  An import rule as the reader builds it: \<open>{kind, fqn, name}\<close>. The name is the alias
  as written, \<open>null\<close> (here \<open>None\<close>) when the element has none.
\<close>

record ImportRule =
  kind_rule :: "SymbolKind option"
  fqn :: string
  name_rule :: "string option"

text \<open>The namespace separator, a backslash.\<close>

definition separator :: string where
  "separator = [CHR 0x5C]"

text \<open>
  The reader keeps the values of the visited nodes on a stack and takes them off with
  \<open>util.popMany\<close>. The functions below are the bodies of the private methods: they take
  the values popped as arguments, with the types the source declares for them, and
  return the value pushed. \<open>postOrder\<close>, further down, pops and pushes for them.

  \<open>_postOrderUseElement\<close>: \<open>[fqn, name] = popMany(stack, 2)\<close>; a rule is pushed when \<open>fqn\<close>
  is truthy (a string that is not empty), \<open>null\<close> otherwise.
\<close>

definition postOrderUseElement ::
  "NonTerminalFlag \<Rightarrow> string option \<Rightarrow> string option \<Rightarrow> ImportRule option" where
  "postOrderUseElement flag popped_fqn popped_name =
     (case popped_fqn of
        None \<Rightarrow> None
      | Some f \<Rightarrow>
          if f = [] then None
          else Some \<lparr>kind_rule = useFlagToSymbolKind flag, fqn = f, name_rule = popped_name\<rparr>)"

text \<open>\<open>_postOrderUseList\<close>: the values of the elements, without the \<open>null\<close>s.\<close>

definition postOrderUseList :: "ImportRule option list \<Rightarrow> ImportRule list" where
  "postOrderUseList popped = List.map_filter (\<lambda>v. v) popped"

text \<open>
  \<open>_postOrderUseGroup\<close>: \<open>[prefix, list] = popMany(stack, 2)\<close>. Every rule of the list gets
  the prefix, when the prefix is truthy, and the kind of the group, when that is not \<open>0\<close>;
  then the list is added to the import table. The import table is a class of
  \<open>symbol.ts\<close>, which is not among the sources: its type is a parameter (\<open>'t\<close>) and its
  method \<open>addRuleMany\<close> is an argument.
\<close>

definition postOrderUseGroup ::
  "('t \<Rightarrow> ImportRule list \<Rightarrow> 't) \<Rightarrow> NonTerminalFlag \<Rightarrow> string option \<Rightarrow> ImportRule list
   \<Rightarrow> 't \<Rightarrow> 't" where
  "postOrderUseGroup addRuleMany flag prefix rules importTable =
     (let kind = useFlagToSymbolKind flag;
          with_prefix = (\<lambda>rule.
            case prefix of
              None \<Rightarrow> rule
            | Some p \<Rightarrow> if p = [] then rule else rule\<lparr>fqn := p @ separator @ fqn rule\<rparr>);
          with_kind = (\<lambda>rule.
            case kind of
              None \<Rightarrow> rule
            | Some k \<Rightarrow> rule\<lparr>kind_rule := Some k\<rparr>)
      in addRuleMany importTable (map (\<lambda>rule. with_kind (with_prefix rule)) rules))"

text \<open>
  \<open>_postOrderUseStatement\<close>: \<open>list = stack.pop()\<close>; every rule of the list gets the kind
  of the statement, also when that is \<open>0\<close>, and the list is added to the import table.
\<close>

definition postOrderUseStatement ::
  "('t \<Rightarrow> ImportRule list \<Rightarrow> 't) \<Rightarrow> NonTerminalFlag \<Rightarrow> ImportRule list \<Rightarrow> 't \<Rightarrow> 't" where
  "postOrderUseStatement addRuleMany flag rules importTable =
     addRuleMany importTable (map (\<lambda>rule. rule\<lparr>kind_rule := useFlagToSymbolKind flag\<rparr>) rules)"

subsection \<open>The walk over the parse tree\<close>

text \<open>
  A node of the parse tree, \<open>Tree<NonTerminal | Token>\<close>: its value is \<open>null\<close>, a
  non-terminal with its type and flag, or a token with its text. The types of
  non-terminals come from the parser; the reader tells seven of them apart from all
  others.
\<close>

datatype NonTerminalType =
  NamespaceName | UseElement | UseList | UseStatement | UseGroup | TopStatementList
  | NamespaceNode | OtherType

datatype node_value =
  NullValue
  | NonTerminalValue NonTerminalType NonTerminalFlag
  | TokenValue string

datatype tree = Tree (value_of: node_value) (children_of: "tree list")

text \<open>
  The values the reader keeps on its stack (\<open>any[]\<close> in the source): \<open>null\<close>, a string, an
  import rule, or an array. A value that \<open>pop\<close> takes from an empty array is
  \<open>undefined\<close>; the reader treats \<open>undefined\<close> as it treats \<open>null\<close> (both are falsy, both
  join as the empty string, a property read of either throws), and \<open>Null\<close> stands for
  both.
\<close>

datatype stack_value =
  Null
  | Text string
  | Rule ImportRule
  | Array "stack_value list"

fun truthy :: "stack_value \<Rightarrow> bool" where
  "truthy Null = False"
| "truthy (Text s) = (s \<noteq> [])"
| "truthy (Rule r) = True"
| "truthy (Array vs) = True"

text \<open>
  \<open>util.popMany(array, count)\<close>, declared in \<open>lib/util.d.ts\<close> (\<open>util.ts\<close> is not among the
  sources): it takes \<open>count\<close> values off the end of the array and returns them in the
  order they were pushed, as the destructuring \<open>[prefix, list] = util.popMany(stack, 2)\<close>
  needs. The result is the values popped and the array that is left.
\<close>

definition popMany :: "stack_value list \<Rightarrow> nat \<Rightarrow> stack_value list \<times> stack_value list" where
  "popMany array count =
     (replicate (count - length array) Null @ drop (length array - count) array,
      take (length array - count) array)"

text \<open>
  \<open>Array.prototype.join\<close> with the separator: \<open>null\<close> joins as the empty string. The
  parts of a namespace name are strings or \<open>null\<close>; other values are outside the model.
\<close>

fun join_part :: "stack_value \<Rightarrow> string option" where
  "join_part Null = Some []"
| "join_part (Text s) = Some s"
| "join_part (Rule r) = None"
| "join_part (Array vs) = None"

fun join :: "stack_value list \<Rightarrow> string option" where
  "join [] = Some []"
| "join [v] = join_part v"
| "join (v # w # vs) =
     (case join_part v of
        None \<Rightarrow> None
      | Some a \<Rightarrow> (case join (w # vs) of None \<Rightarrow> None | Some b \<Rightarrow> Some (a @ separator @ b)))"

text \<open>A popped value as the \<open>string\<close> or \<open>null\<close> the source declares it to be.\<close>

fun string_or_null :: "stack_value \<Rightarrow> string option option" where
  "string_or_null Null = Some None"
| "string_or_null (Text s) = Some (Some s)"
| "string_or_null (Rule r) = None"
| "string_or_null (Array vs) = None"

text \<open>The elements of a popped array as the \<open>ImportRule[]\<close> the source declares it to be.\<close>

fun rules_of :: "stack_value list \<Rightarrow> ImportRule list option" where
  "rules_of [] = Some []"
| "rules_of (Rule r # vs) = (case rules_of vs of None \<Rightarrow> None | Some rs \<Rightarrow> Some (r # rs))"
| "rules_of (v # vs) = None"

text \<open>The reader: the import table, \<open>_stack\<close> and \<open>_active\<close>.\<close>

record 't ImportTableReader =
  importTable :: 't
  stack :: "stack_value list"
  active :: int

definition preOrder :: "tree \<Rightarrow> 't ImportTableReader \<Rightarrow> 't ImportTableReader" where
  "preOrder node reader =
     (case value_of node of
        NonTerminalValue UseStatement flag \<Rightarrow> reader\<lparr>active := active reader + 1\<rparr>
      | NonTerminalValue UseGroup flag \<Rightarrow> reader\<lparr>active := active reader + 1\<rparr>
      | _ \<Rightarrow> reader)"

definition shouldDescend :: "tree \<Rightarrow> bool" where
  "shouldDescend node =
     (case value_of node of
        NonTerminalValue t flag \<Rightarrow>
          t \<in> {TopStatementList, UseElement, UseList, UseStatement, UseGroup, NamespaceName,
               NamespaceNode}
      | _ \<Rightarrow> False)"

text \<open>
  \<open>postOrder\<close>. Nothing is done while \<open>_active\<close> is below one. For a node whose value is
  \<open>null\<close> the source pushes \<open>null\<close> and goes on to the \<open>switch\<close>, which reads
  \<open>node.value.nonTerminalType\<close>: a property read of \<open>null\<close>, which throws (\<open>preOrder\<close> and
  \<open>shouldDescend\<close> return for such a node; \<open>postOrder\<close> has no \<open>return\<close> after the push).
  A token pushes its text. A non-terminal of one of the five types of the \<open>switch\<close> pops the
  values of its children and pushes its own; a list that is \<open>null\<close> where the source
  reads \<open>list.length\<close> throws.
\<close>

definition postOrder ::
  "('t \<Rightarrow> ImportRule list \<Rightarrow> 't) \<Rightarrow> tree \<Rightarrow> 't ImportTableReader
   \<Rightarrow> error + 't ImportTableReader" where
  "postOrder addRuleMany node reader =
     (if active reader < 1 then Inr reader
      else case value_of node of
        NullValue \<Rightarrow> Inl TypeError
      | TokenValue t \<Rightarrow> Inr (reader\<lparr>stack := stack reader @ [Text t]\<rparr>)
      | NonTerminalValue NamespaceName flag \<Rightarrow>
          (case popMany (stack reader) (length (children_of node)) of
             (popped, rest) \<Rightarrow>
               (case join popped of
                  None \<Rightarrow> Inl IllTyped
                | Some s \<Rightarrow> Inr (reader\<lparr>stack := rest @ [Text s]\<rparr>)))
      | NonTerminalValue UseElement flag \<Rightarrow>
          (case popMany (stack reader) 2 of
             ([popped_fqn, popped_name], rest) \<Rightarrow>
               (if \<not> truthy popped_fqn then Inr (reader\<lparr>stack := rest @ [Null]\<rparr>)
                else case (string_or_null popped_fqn, string_or_null popped_name) of
                  (Some f, Some n) \<Rightarrow>
                    Inr (reader\<lparr>stack := rest @
                           [case postOrderUseElement flag f n of
                              None \<Rightarrow> Null
                            | Some rule \<Rightarrow> Rule rule]\<rparr>)
                | _ \<Rightarrow> Inl IllTyped)
           | _ \<Rightarrow> Inl IllTyped)
      | NonTerminalValue UseList flag \<Rightarrow>
          (case popMany (stack reader) (length (children_of node)) of
             (popped, rest) \<Rightarrow> Inr (reader\<lparr>stack := rest @ [Array (filter truthy popped)]\<rparr>))
      | NonTerminalValue UseStatement flag \<Rightarrow>
          (case popMany (stack reader) 1 of
             ([Null], rest) \<Rightarrow> Inl TypeError
           | ([Array vs], rest) \<Rightarrow>
               (case rules_of vs of
                  None \<Rightarrow> Inl IllTyped
                | Some rules \<Rightarrow>
                    Inr (reader\<lparr>importTable :=
                                  postOrderUseStatement addRuleMany flag rules (importTable reader),
                                stack := rest,
                                active := active reader - 1\<rparr>))
           | _ \<Rightarrow> Inl IllTyped)
      | NonTerminalValue UseGroup flag \<Rightarrow>
          (case popMany (stack reader) 2 of
             ([popped_prefix, Null], rest) \<Rightarrow> Inl TypeError
           | ([popped_prefix, Array vs], rest) \<Rightarrow>
               (case (string_or_null popped_prefix, rules_of vs) of
                  (Some prefix, Some rules) \<Rightarrow>
                    Inr (reader\<lparr>importTable :=
                                  postOrderUseGroup addRuleMany flag prefix rules (importTable reader),
                                stack := rest,
                                active := active reader - 1\<rparr>)
                | _ \<Rightarrow> Inl IllTyped)
           | _ \<Rightarrow> Inl IllTyped)
      | NonTerminalValue t flag \<Rightarrow> Inr reader)"

text \<open>
  Modelled from the spec: the traversal of the parse tree (the class \<open>TreeTraverser\<close> is
  in \<open>types.ts\<close>, which is not among the sources). Section 4.A of the specification
  gives it as a depth-first traversal that calls the visitor's \<open>preorder\<close> on a node,
  descends into the children, in order, when \<open>shouldDescend\<close> says so, and then calls
  \<open>postorder\<close> on the node. An exception thrown by the visitor ends the traversal.
\<close>

fun traverse ::
  "('t \<Rightarrow> ImportRule list \<Rightarrow> 't) \<Rightarrow> tree \<Rightarrow> 't ImportTableReader \<Rightarrow> error + 't ImportTableReader"
and traverse_children ::
  "('t \<Rightarrow> ImportRule list \<Rightarrow> 't) \<Rightarrow> tree list \<Rightarrow> 't ImportTableReader \<Rightarrow> error + 't ImportTableReader"
where
  "traverse addRuleMany (Tree v cs) reader =
     (case (if shouldDescend (Tree v cs)
            then traverse_children addRuleMany cs (preOrder (Tree v cs) reader)
            else Inr (preOrder (Tree v cs) reader)) of
        Inl e \<Rightarrow> Inl e
      | Inr after \<Rightarrow> postOrder addRuleMany (Tree v cs) after)"
| "traverse_children addRuleMany [] reader = Inr reader"
| "traverse_children addRuleMany (c # cs) reader =
     (case traverse addRuleMany c reader of
        Inl e \<Rightarrow> Inl e
      | Inr after \<Rightarrow> traverse_children addRuleMany cs after)"

section \<open>Symbol reader: the docblock of a function or method (visitors.ts)\<close>

text \<open>
  A docblock as the docblock parser returns it (the parser, \<open>parse.ts\<close>, is not among
  the sources; it is an argument of the function below). Names of parameters and of
  \<open>@param\<close> tags are variable names, which start with \<open>$\<close>: none of them is a property
  that the object \<open>paramMap\<close> inherits, so its own keys decide every lookup.
\<close>

record TypeTag =
  tagName :: string
  name_tag :: string
  description_tag :: string
  typeString :: string

record PhpDoc =
  summary :: string
  tags :: "TypeTag list"

record Token =
  text_token :: string

definition set_type :: "TypeString option \<Rightarrow> PhpSymbol \<Rightarrow> PhpSymbol" where
  "set_type t s =
     PhpSymbol (kind s) (name s) (modifiers s) t (description s) (doc s) (associated s) (children s)"

definition set_description :: "string option \<Rightarrow> PhpSymbol \<Rightarrow> PhpSymbol" where
  "set_description d s =
     PhpSymbol (kind s) (name s) (modifiers s) (type s) d (doc s) (associated s) (children s)"

text \<open>
  \<open>x.type === undefined ? new TypeString(tag.typeString) : x.type.merge(tag.typeString)\<close>,
  the value assigned to \<open>x.type\<close>.
\<close>

definition assigned_type :: "TypeString option \<Rightarrow> string \<Rightarrow> TypeString option" where
  "assigned_type t tag_type =
     (case t of
        None \<Rightarrow> Some (TypeString_new tag_type)
      | Some ty \<Rightarrow> Some (TypeString_merge ty tag_type))"

text \<open>
  The first loop: \<open>paramMap[param.name] = param\<close> for every entry of \<open>params\<close>. An entry
  is \<open>null\<close> (here \<open>None\<close>) for a parameter without a name; reading its \<open>value\<close> throws.
  The map gives the position of the parameter in \<open>params\<close>, which stands for the
  reference to the object.
\<close>

fun paramMap_loop ::
  "PhpSymbol option list \<Rightarrow> nat \<Rightarrow> (string \<rightharpoonup> nat) \<Rightarrow> error + (string \<rightharpoonup> nat)" where
  "paramMap_loop [] n paramMap = Inr paramMap"
| "paramMap_loop (None # params) n paramMap = Inl TypeError"
| "paramMap_loop (Some param # params) n paramMap =
     paramMap_loop params (Suc n) (paramMap(name param \<mapsto> n))"

text \<open>The assignments to the parameter that an \<open>@param\<close> tag names.\<close>

definition assign_param :: "TypeTag \<Rightarrow> nat \<Rightarrow> PhpSymbol option list \<Rightarrow> PhpSymbol option list" where
  "assign_param tag i params =
     (if i < length params then
        (case params ! i of
           None \<Rightarrow> params
         | Some param \<Rightarrow>
             params[i := Some (set_type (assigned_type (type param) (typeString tag))
                                 (set_description (Some (description_tag tag)) param))])
      else params)"

text \<open>The second loop, over the tags of the docblock.\<close>

fun tags_loop ::
  "(string \<rightharpoonup> nat) \<Rightarrow> TypeTag list \<Rightarrow> PhpSymbol \<Rightarrow> PhpSymbol option list
   \<Rightarrow> PhpSymbol \<times> PhpSymbol option list" where
  "tags_loop paramMap [] s params = (s, params)"
| "tags_loop paramMap (tag # rest) s params =
     (if tagName tag = ''@param'' then
        (case paramMap (name_tag tag) of
           None \<Rightarrow> tags_loop paramMap rest s params
         | Some i \<Rightarrow> tags_loop paramMap rest s (assign_param tag i params))
      else if tagName tag = ''@return'' then
        tags_loop paramMap rest (set_type (assigned_type (type s) (typeString tag)) s) params
      else tags_loop paramMap rest s params)"

text \<open>
  \<open>_assignFunctionOrMethodPhpDoc\<close>. The result is the symbol and the parameters after
  the call.
\<close>

definition assignFunctionOrMethodPhpDoc ::
  "(string \<Rightarrow> PhpDoc option) \<Rightarrow> PhpSymbol \<Rightarrow> PhpSymbol option list \<Rightarrow> Token option
   \<Rightarrow> error + (PhpSymbol \<times> PhpSymbol option list)" where
  "assignFunctionOrMethodPhpDoc parse s params doc_token =
     (case doc_token of
        None \<Rightarrow> Inr (s, params)
      | Some token \<Rightarrow>
          (case parse (text_token token) of
             None \<Rightarrow> Inr (s, params)
           | Some phpDoc \<Rightarrow>
               (case paramMap_loop params 0 Map.empty of
                  Inl e \<Rightarrow> Inl e
                | Inr paramMap \<Rightarrow>
                    Inr (tags_loop paramMap (tags phpDoc)
                           (set_description (Some (summary phpDoc)) s) params))))"

section \<open>Parsed document store (parsedDocument.ts)\<close>

text \<open>
  A parsed document: its URI and its text (the parse tree is computed from the text by
  the parser, an external package). A document URI has a scheme, as in
  \<open>file:///src/a.php\<close>; it is never the name of a property that the objects
  \<open>_parsedDocumentmap\<close> and \<open>_unsubscribeMap\<close> inherit, so their own keys decide every
  lookup.
\<close>

record ParsedDocument =
  uri :: string
  doc_text :: string

text \<open>
  The store: \<open>_parsedDocumentmap\<close> and \<open>_unsubscribeMap\<close>. The classes \<open>Event\<close> and
  \<open>Unsubscribe\<close> are in \<open>types.ts\<close>, which is not among the sources: the function that
  \<open>changeEvent.subscribe\<close> returns is represented by the document it was made for, and
  \<open>listening\<close> holds the documents whose change event the store is subscribed to.
\<close>

record ParsedDocumentStore =
  parsedDocumentmap :: "string \<rightharpoonup> ParsedDocument"
  unsubscribeMap :: "string \<rightharpoonup> ParsedDocument"
  listening :: "ParsedDocument list"

definition ParsedDocumentStore_new :: ParsedDocumentStore where
  "ParsedDocumentStore_new =
     \<lparr>parsedDocumentmap = Map.empty, unsubscribeMap = Map.empty, listening = []\<rparr>"

definition has :: "ParsedDocumentStore \<Rightarrow> string \<Rightarrow> bool" where
  "has store u = (parsedDocumentmap store u \<noteq> None)"

text \<open>\<open>add\<close>: the error thrown, if any, and the store after the call.\<close>

definition add :: "ParsedDocumentStore \<Rightarrow> ParsedDocument \<Rightarrow> error option \<times> ParsedDocumentStore" where
  "add store parsedDocument =
     (if has store (uri parsedDocument) then (Some DuplicateKey, store)
      else (None,
            store\<lparr>parsedDocumentmap := (parsedDocumentmap store)(uri parsedDocument \<mapsto> parsedDocument),
                   unsubscribeMap := (unsubscribeMap store)(uri parsedDocument \<mapsto> parsedDocument),
                   listening := listening store @ [parsedDocument]\<rparr>))"

text \<open>
  \<open>remove\<close>: nothing for a URI the store does not have; otherwise the subscription is
  ended and the document is deleted from \<open>_parsedDocumentmap\<close>. The entry of
  \<open>_unsubscribeMap\<close> stays. Calling an \<open>unsubscribe\<close> that is \<open>undefined\<close> would throw.
\<close>

definition remove :: "ParsedDocumentStore \<Rightarrow> string \<Rightarrow> error option \<times> ParsedDocumentStore" where
  "remove store u =
     (if \<not> has store u then (None, store)
      else case unsubscribeMap store u of
        None \<Rightarrow> (Some TypeError, store)
      | Some subscribed \<Rightarrow>
          (None,
           store\<lparr>listening := remove1 subscribed (listening store),
                  parsedDocumentmap := (parsedDocumentmap store)(u := None)\<rparr>))"

section \<open>Opening a document (intelephense.ts)\<close>

record TextDocumentItem =
  uri_item :: string
  languageId :: string
  text_item :: string

definition phpLanguageId :: string where
  "phpLanguageId = ''php''"

text \<open>
  The symbol table, the symbol store as \<open>openDocument\<close> uses it, and the diagnostics
  provider are not among the sources. Their types are parameters (\<open>'t\<close>, \<open>'s\<close>, \<open>'d\<close>) and
  their operations are arguments of \<open>openDocument\<close>.
\<close>

record ('t, 's, 'd) Collaborators =
  SymbolTable_create :: "ParsedDocument \<Rightarrow> 't"
  SymbolTable_uri :: "'t \<Rightarrow> string"
  SymbolStore_remove :: "'s \<Rightarrow> string \<Rightarrow> 's"
  SymbolStore_add :: "'s \<Rightarrow> 't \<Rightarrow> 's"
  DiagnosticsProvider_add :: "'d \<Rightarrow> ParsedDocument \<Rightarrow> 'd"

text \<open>The module variables that \<open>openDocument\<close> reads or writes.\<close>

record ('s, 'd) Intelephense =
  documentStore :: ParsedDocumentStore
  symbolStore' :: 's
  diagnosticsProvider :: 'd

text \<open>
  \<open>openDocument\<close>: the state after the call, and the symbol table the call created
  (\<open>None\<close> when it returned before creating one).
\<close>

definition openDocument ::
  "('t, 's, 'd) Collaborators \<Rightarrow> TextDocumentItem \<Rightarrow> ('s, 'd) Intelephense
   \<Rightarrow> error + (('s, 'd) Intelephense \<times> 't option)" where
  "openDocument c textDocument state =
     (if languageId textDocument \<noteq> phpLanguageId
         \<or> has (documentStore state) (uri_item textDocument)
      then Inr (state, None)
      else
        let parsedDocument = \<lparr>uri = uri_item textDocument, doc_text = text_item textDocument\<rparr> in
        case add (documentStore state) parsedDocument of
          (Some e, _) \<Rightarrow> Inl e
        | (None, documents) \<Rightarrow>
            let symbolTable = SymbolTable_create c parsedDocument;
                symbols = SymbolStore_add c
                            (SymbolStore_remove c (symbolStore' state) (SymbolTable_uri c symbolTable))
                            symbolTable
            in Inr (\<lparr>documentStore = documents,
                      symbolStore' = symbols,
                      diagnosticsProvider =
                        DiagnosticsProvider_add c (diagnosticsProvider state) parsedDocument\<rparr>,
                    Some symbolTable))"

section \<open>Notions used in the statements\<close>

text \<open>
  The invariant of the loop of \<open>_mergeMembers\<close>: the names of the members kept are
  distinct, none is a name every object inherits, and \<open>map\<close> holds, for each name kept
  and for no other, the position of the member of that name.
\<close>

definition index_inv :: "(string \<rightharpoonup> nat) \<Rightarrow> PhpSymbol list \<Rightarrow> bool" where
  "index_inv index_of merged =
     (distinct (map name merged)
      \<and> (\<forall>m \<in> set merged. name m \<notin> set objectPrototypeKeys)
      \<and> (\<forall>n i. index_of n = Some i \<longrightarrow> i < length merged \<and> name (merged ! i) = n)
      \<and> (\<forall>i < length merged. index_of (name (merged ! i)) = Some i))"

text \<open>
  What the Override strategy keeps under a name, said without the loop: the first member
  of that name that is not magic, and the first member of that name when all are magic.
\<close>

definition override_keeps :: "PhpSymbol list \<Rightarrow> string \<Rightarrow> PhpSymbol option" where
  "override_keeps symbols n =
     (case List.find (\<lambda>s. name s = n \<and> Magic \<notin> modifiers s) symbols of
        Some s \<Rightarrow> Some s
      | None \<Rightarrow> List.find (\<lambda>s. name s = n) symbols)"

text \<open>The children of a symbol, none when the field is absent.\<close>

definition children_or_empty :: "PhpSymbol \<Rightarrow> PhpSymbol list" where
  "children_or_empty s = (case children s of None \<Rightarrow> [] | Some cs \<Rightarrow> cs)"





text \<open>
  The parameter that a name finds in \<open>paramMap\<close>, said without the loop: the position of
  the last parameter of that name.
\<close>

definition param_index :: "PhpSymbol list \<Rightarrow> string \<rightharpoonup> nat" where
  "param_index params = map_of (rev (zip (map name params) [0..<length params]))"

text \<open>
  The invariant of the document store: a URI that has a document has an \<open>unsubscribe\<close>.
  It holds for the new store, and \<open>add\<close> and \<open>remove\<close> keep it.
\<close>

definition subscribed_inv :: "ParsedDocumentStore \<Rightarrow> bool" where
  "subscribed_inv store =
     (\<forall>u. parsedDocumentmap store u \<noteq> None \<longrightarrow> unsubscribeMap store u \<noteq> None)"

text \<open>Symbols for the examples: a member, a class-like symbol, and a stub.\<close>

definition member_symbol :: "SymbolKind \<Rightarrow> string \<Rightarrow> SymbolModifier set \<Rightarrow> PhpSymbol" where
  "member_symbol k n ms = PhpSymbol k n ms None None None None None"

definition classlike_symbol ::
  "SymbolKind \<Rightarrow> string \<Rightarrow> PhpSymbol list option \<Rightarrow> PhpSymbol list option \<Rightarrow> PhpSymbol" where
  "classlike_symbol k n assoc cs = PhpSymbol k n {} None None None assoc cs"

definition stub_symbol :: "string \<Rightarrow> PhpSymbol" where
  "stub_symbol n = PhpSymbol Class n {} None None None None None"

section \<open>The constructor of the type aggregate\<close>

text \<open>
  Claim C4. Constructing a type aggregate from \<open>null\<close>, or from a symbol whose kind is
  not Class, Interface or Trait, throws \<open>Invalid Argument\<close>; constructing one from a
  symbol of one of these three kinds does not throw, and gives the aggregate of that
  symbol over the store.
\<close>

theorem TypeAggregate_new_class_like:
  "TypeAggregate_new store None = Inl InvalidArgument
   \<and> (\<forall>s. TypeAggregate_new store (Some s)
          = (if kind s \<in> {Namespace, Function, Method, Property, ClassConstant, Constant,
                            Parameter, Variable}
             then Inl InvalidArgument
             else Inr \<lparr>symbolStore = store, symbol = s\<rparr>))"
proof -
  have "TypeAggregate_new store (Some s)
          = (if kind s \<in> {Namespace, Function, Method, Property, ClassConstant, Constant,
                            Parameter, Variable}
             then Inl InvalidArgument
             else Inr \<lparr>symbolStore = store, symbol = s\<rparr>)" for s
    by (cases "kind s") (simp_all add: TypeAggregate_new_def)
  then show ?thesis
    by (simp add: TypeAggregate_new_def)
qed

section \<open>The associated set\<close>

lemma getAssociated_loop_distinct:
  "distinct collected \<Longrightarrow> distinct (getAssociated_loop store queue collected)"
  by (induction store queue collected rule: getAssociated_loop.induct)
     (auto split: list.splits)

lemma find_store_in_store:
  assumes "find_store store n isClassLike = s # rest"
  shows "s \<in> store_symbols store" and "isClassLike s"
proof -
  have "s \<in> set (find_store store n isClassLike)"
    using assms by simp
  then show "s \<in> store_symbols store" and "isClassLike s"
    by (cases "map_of store n";
        force simp: find_store_def store_symbols_def dest: map_of_SomeD)+
qed

lemma getAssociated_loop_subset:
  "set collected \<subseteq> {s \<in> store_symbols store. isClassLike s}
   \<Longrightarrow> set (getAssociated_loop store queue collected)
       \<subseteq> {s \<in> store_symbols store. isClassLike s}"
proof (induction store queue collected rule: getAssociated_loop.induct)
  case (1 store collected)
  then show ?case by simp
next
  case (2 store stub queue collected)
  show ?case
  proof (cases "find_store store (name stub) isClassLike")
    case Nil
    then show ?thesis using 2 by simp
  next
    case (Cons s rest)
    then show ?thesis
      using 2 find_store_in_store[OF Cons] by auto
  qed
qed

text \<open>
  Claim C3. For every symbol store and every root, also when the associated links form a
  cycle, computing the associated set terminates (\<open>getAssociated_loop\<close> is a total
  function: its termination is proved where it is defined), and the list it returns has
  no symbol twice and holds class-like symbols of the store only. A stub that resolves
  to a symbol collected already is dropped: nothing is added to the queue for it.
\<close>

theorem getAssociated_distinct:
  "distinct (getAssociated agg)
   \<and> set (getAssociated agg) \<subseteq> {s \<in> store_symbols (symbolStore agg). isClassLike s}
   \<and> (\<forall>stub queue collected s rest.
         find_store (symbolStore agg) (name stub) isClassLike = s # rest \<and> s \<in> set collected
         \<longrightarrow> getAssociated_loop (symbolStore agg) (stub # queue) collected
             = getAssociated_loop (symbolStore agg) queue collected)"
  using getAssociated_loop_subset[of "[]" "symbolStore agg"]
  by (auto simp: getAssociated_def getAssociated_loop_distinct split: option.splits)

text \<open>
  The example of the claim: \<open>A\<close> extends \<open>B\<close> and \<open>B\<close> extends \<open>A\<close>. The associated set of
  \<open>A\<close> is \<open>B\<close>, then \<open>A\<close> itself (the root is not collected when the walk starts), and the
  second stub for \<open>B\<close> is dropped.
\<close>

theorem getAssociated_distinct_witness:
  "getAssociated
     \<lparr>symbolStore =
        [(''A'', [classlike_symbol Class ''A'' (Some [stub_symbol ''B'']) None]),
         (''B'', [classlike_symbol Class ''B'' (Some [stub_symbol ''A'']) None])],
      symbol = classlike_symbol Class ''A'' (Some [stub_symbol ''B'']) None\<rparr>
   = [classlike_symbol Class ''B'' (Some [stub_symbol ''A'']) None,
      classlike_symbol Class ''A'' (Some [stub_symbol ''B'']) None]
   \<and> distinct (getAssociated
     \<lparr>symbolStore =
        [(''A'', [classlike_symbol Class ''A'' (Some [stub_symbol ''B'']) None]),
         (''B'', [classlike_symbol Class ''B'' (Some [stub_symbol ''A'']) None])],
      symbol = classlike_symbol Class ''A'' (Some [stub_symbol ''B'']) None\<rparr>)"
  using getAssociated_distinct
    [of "\<lparr>symbolStore =
        [(''A'', [classlike_symbol Class ''A'' (Some [stub_symbol ''B'']) None]),
         (''B'', [classlike_symbol Class ''B'' (Some [stub_symbol ''A'']) None])],
      symbol = classlike_symbol Class ''A'' (Some [stub_symbol ''B'']) None\<rparr>"]
  by (simp add: getAssociated_def find_store_def isClassLike_def classlike_symbol_def
      stub_symbol_def)

section \<open>The closure \<open>noPrivate\<close>\<close>

lemma noPrivate_private: "Private \<in> modifiers x \<Longrightarrow> noPrivate var x = Some False"
  by (subst noPrivate.simps) simp

lemma noPrivate_Some_cases:
  assumes "noPrivate var x = Some b"
  shows "Private \<in> modifiers x \<or> var \<noteq> NoPrivate"
proof -
  have "(case (var, x) of (v, y) \<Rightarrow> \<lambda>r. Private \<in> modifiers y \<or> v \<noteq> NoPrivate) b"
  proof (rule noPrivate.raw_induct
      [where P = "\<lambda>v y r. Private \<in> modifiers y \<or> v \<noteq> NoPrivate"])
    show "(case (var, x) of (v, y) \<Rightarrow> noPrivate v y) = Some b"
      using assms by simp
  next
    fix f :: "predicate_var \<Rightarrow> PhpSymbol \<Rightarrow> bool option" and v y r
    assume "\<And>v y r. f v y = Some r \<Longrightarrow> Private \<in> modifiers y \<or> v \<noteq> NoPrivate"
      and "(if Private \<in> modifiers y then Some False
            else case v of Undefined \<Rightarrow> Some True | Caller p \<Rightarrow> Some (p y)
                 | NoPrivate \<Rightarrow> f v y) = Some r"
    then show "Private \<in> modifiers y \<or> v \<noteq> NoPrivate"
      by (auto split: if_splits predicate_var.splits)
  qed
  then show ?thesis by simp
qed

text \<open>
  Once the variable \<open>predicate\<close> holds the closure, a call of the closure on a member
  that is not private does not return.
\<close>

lemma noPrivate_self: "Private \<notin> modifiers x \<Longrightarrow> noPrivate NoPrivate x = None"
  using noPrivate_Some_cases [of NoPrivate x] by (cases "noPrivate NoPrivate x") auto

text \<open>
  Claim C2. For a class root, \<open>members\<close> should leave out the private members of the
  ancestors, keep those of the root, and return the list for every input. It does not
  return for the classes of the second scenario of the specification, \<open>Sub\<close> extends
  \<open>Base\<close> with a public method \<open>m\<close> in \<open>Base\<close>: the filter applied to the members of
  \<open>Base\<close> is \<open>noPrivate\<close>, called when the variable it reads holds \<open>noPrivate\<close> itself.
\<close>

theorem members_inherited_member_overflows:
  "members
     \<lparr>symbolStore =
        [(''Base'', [classlike_symbol Class ''Base'' None
                       (Some [member_symbol Method ''m'' {Public}])])],
      symbol = classlike_symbol Class ''Sub'' (Some [stub_symbol ''Base'']) (Some [])\<rparr>
     Override None
   = Inl RangeError"
  by (simp add: members_def classMembers_def getAssociated_def find_store_def isClassLike_def
      filter_children_def noPrivate_self classlike_symbol_def member_symbol_def
      stub_symbol_def)

text \<open>
  What the filter does to a private member is what the claim asks for: a private
  member of an ancestor is left out.
\<close>

lemma members_inherited_private_left_out:
  "members
     \<lparr>symbolStore =
        [(''Base'', [classlike_symbol Class ''Base'' None
                       (Some [member_symbol Method ''p'' {Private}])])],
      symbol = classlike_symbol Class ''Sub'' (Some [stub_symbol ''Base''])
                 (Some [member_symbol Method ''q'' {Private}])\<rparr>
     Override None
   = Inr [member_symbol Method ''q'' {Private}]"
  by (simp add: members_def classMembers_def getAssociated_def find_store_def isClassLike_def
      filter_children_def noPrivate_private classlike_symbol_def member_symbol_def
      stub_symbol_def mergeMembers_def objectPrototypeKeys_def traitMembers_def)





section \<open>Merging members by name\<close>

lemma index_inv_empty: "index_inv Map.empty []"
  by (simp add: index_inv_def)

lemma index_inv_None:
  assumes "index_inv index_of merged" "index_of n = None"
  shows "n \<notin> name ` set merged"
proof
  assume "n \<in> name ` set merged"
  then obtain i where "i < length merged" "name (merged ! i) = n"
    by (auto simp: in_set_conv_nth)
  with assms(1) have "index_of n = Some i"
    unfolding index_inv_def by blast
  with assms(2) show False by simp
qed

lemma index_inv_Some:
  assumes "index_inv index_of merged" "index_of n = Some i"
  shows "i < length merged" "name (merged ! i) = n"
  using assms unfolding index_inv_def by blast+

lemma index_inv_append:
  assumes "index_inv index_of merged" "index_of (name s) = None"
    "name s \<notin> set objectPrototypeKeys"
  shows "index_inv (index_of(name s \<mapsto> length merged)) (merged @ [s])"
proof -
  have fresh: "name s \<notin> name ` set merged"
    using assms index_inv_None by blast
  have a: "\<And>n i. (index_of(name s \<mapsto> length merged)) n = Some i
          \<Longrightarrow> i < length (merged @ [s]) \<and> name ((merged @ [s]) ! i) = n"
    using index_inv_Some[OF assms(1)]
    by (auto simp: nth_append less_Suc_eq split: if_splits)
  have b: "\<And>i. i < length (merged @ [s])
           \<Longrightarrow> (index_of(name s \<mapsto> length merged)) (name ((merged @ [s]) ! i)) = Some i"
  proof -
    fix i assume "i < length (merged @ [s])"
    then consider "i < length merged" | "i = length merged" by fastforce
    then show "(index_of(name s \<mapsto> length merged)) (name ((merged @ [s]) ! i)) = Some i"
    proof cases
      case 1
      then have "name (merged ! i) \<noteq> name s" using fresh by (metis image_eqI nth_mem)
      moreover have "index_of (name (merged ! i)) = Some i"
        using assms(1) 1 unfolding index_inv_def by blast
      ultimately show ?thesis using 1 by (simp add: nth_append)
    next
      case 2
      then show ?thesis by simp
    qed
  qed
  have "distinct (map name (merged @ [s]))"
    using assms(1) fresh by (simp add: index_inv_def)
  moreover have "\<forall>m \<in> set (merged @ [s]). name m \<notin> set objectPrototypeKeys"
    using assms(1,3) by (simp add: index_inv_def)
  ultimately show ?thesis
    unfolding index_inv_def using a b by blast
qed

lemma index_inv_update:
  assumes "index_inv index_of merged" "index_of (name s) = Some i"
  shows "index_inv index_of (merged[i := s])"
proof -
  from assms have i: "i < length merged" "name (merged ! i) = name s"
    using index_inv_Some by blast+
  have nth: "\<And>j. j < length merged \<Longrightarrow> name ((merged[i := s]) ! j) = name (merged ! j)"
    using i by (case_tac "i = j") simp_all
  have names: "map name (merged[i := s]) = map name merged"
    by (rule nth_equalityI) (simp_all add: nth)
  have "name s \<notin> set objectPrototypeKeys"
    using assms(1) i by (metis index_inv_def nth_mem)
  then have "\<forall>m \<in> set (merged[i := s]). name m \<notin> set objectPrototypeKeys"
    using assms(1) set_update_subset_insert[of merged i s]
    by (auto simp: index_inv_def)
  moreover have "distinct (map name (merged[i := s]))"
    using assms(1) names by (simp add: index_inv_def del: map_update)
  moreover have "\<forall>n j. index_of n = Some j
      \<longrightarrow> j < length (merged[i := s]) \<and> name ((merged[i := s]) ! j) = n"
    using index_inv_Some[OF assms(1)] nth by simp
  moreover have "\<forall>j < length (merged[i := s]). index_of (name ((merged[i := s]) ! j)) = Some j"
    using assms(1) nth by (simp add: index_inv_def)
  ultimately show ?thesis
    unfolding index_inv_def by blast
qed

text \<open>
  A member appended to the list is treated by one more iteration, started from the
  result for the list and an index that fits it.
\<close>

lemma mergeMembers_loop_snoc:
  assumes "index_inv index_of merged"
    "mergeMembers_loop strategy symbols index_of merged = Inr result"
  shows "\<exists>index_of'. index_inv index_of' result
     \<and> (\<forall>s. mergeMembers_loop strategy (symbols @ [s]) index_of merged
            = mergeMembers_loop strategy [s] index_of' result)"
  using assms
proof (induction symbols arbitrary: index_of merged)
  case Nil
  then show ?case by auto
next
  case (Cons x symbols)
  from Cons.prems(2) have proto: "name x \<notin> set objectPrototypeKeys"
    by (auto split: if_splits)
  show ?case
  proof (cases "index_of (name x)")
    case None
    have "index_inv (index_of(name x \<mapsto> length merged)) (merged @ [x])"
      using Cons.prems(1) None proto by (rule index_inv_append)
    moreover have "mergeMembers_loop strategy symbols (index_of(name x \<mapsto> length merged)) (merged @ [x]) = Inr result"
      using Cons.prems(2) None proto by simp
    ultimately obtain index_of' where "index_inv index_of' result"
      "\<forall>s. mergeMembers_loop strategy (symbols @ [s]) (index_of(name x \<mapsto> length merged)) (merged @ [x])
            = mergeMembers_loop strategy [s] index_of' result"
      using Cons.IH by blast
    then show ?thesis using None proto by auto
  next
    case (Some i)
    have i: "i < length merged" using Cons.prems(1) Some index_inv_Some by blast
    let ?replace = "(Magic \<in> modifiers (merged ! i) \<and> Magic \<notin> modifiers x)
                  \<or> (strategy = Documented \<and> doc (merged ! i) = None \<and> doc x \<noteq> None)
                  \<or> strategy = Base"
    show ?thesis
    proof (cases ?replace)
      case True
      have "index_inv index_of (merged[i := x])"
        using Cons.prems(1) Some by (rule index_inv_update)
      moreover have "mergeMembers_loop strategy symbols index_of (merged[i := x]) = Inr result"
        using Cons.prems(2) Some proto i True by simp
      ultimately obtain index_of' where "index_inv index_of' result"
        "\<forall>s. mergeMembers_loop strategy (symbols @ [s]) index_of (merged[i := x])
            = mergeMembers_loop strategy [s] index_of' result"
        using Cons.IH by blast
      then show ?thesis using Some proto i True by auto
    next
      case False
      have "mergeMembers_loop strategy symbols index_of merged = Inr result"
        using Cons.prems(2) Some proto i False by auto
      then obtain index_of' where "index_inv index_of' result"
        "\<forall>s. mergeMembers_loop strategy (symbols @ [s]) index_of merged
            = mergeMembers_loop strategy [s] index_of' result"
        using Cons.IH Cons.prems(1) by blast
      then show ?thesis using Some proto i False by auto
    qed
  qed
qed

lemma replace_by_name:
  assumes "distinct (map name merged)" "i < length merged" "name (merged ! i) = name s"
  shows "merged[i := s] = map (\<lambda>m. if name m = name s then s else m) merged"
proof (rule nth_equalityI)
  show "length (merged[i := s]) = length (map (\<lambda>m. if name m = name s then s else m) merged)"
    by simp
next
  fix j assume "j < length (merged[i := s])"
  then have j: "j < length merged" by simp
  show "merged[i := s] ! j = map (\<lambda>m. if name m = name s then s else m) merged ! j"
  proof (cases "j = i")
    case True
    then show ?thesis using assms by simp
  next
    case False
    then have "name (merged ! j) \<noteq> name (merged ! i)"
      using assms(1,2) j by (metis distinct_conv_nth length_map nth_map)
    then show ?thesis using False j assms(3) by simp
  qed
qed

text \<open>
  Claim C1. For every merge strategy but None: when the member kept so far under a name
  is magic and a later member of that name is not, the later member takes its place in
  the result, whatever the strategy. Here \<open>merged\<close> is the result for the members seen so
  far and \<open>s\<close> the member that comes next; the result for all of them is \<open>merged\<close> with \<open>s\<close>
  in the place of the member of its name.
\<close>

theorem mergeMembers_prefers_non_magic:
  assumes "strategy \<noteq> NoneStrategy"
    and "mergeMembers symbols strategy = Inr merged"
    and "kept \<in> set merged" and "name kept = name s"
    and "Magic \<in> modifiers kept" and "Magic \<notin> modifiers s"
  shows "mergeMembers (symbols @ [s]) strategy
         = Inr (map (\<lambda>m. if name m = name s then s else m) merged)
       \<and> s \<in> set (map (\<lambda>m. if name m = name s then s else m) merged)
       \<and> kept \<notin> set (map (\<lambda>m. if name m = name s then s else m) merged)"
proof -
  from assms(1,2) have "mergeMembers_loop strategy symbols Map.empty [] = Inr merged"
    by (simp add: mergeMembers_def)
  then obtain index_of where inv: "index_inv index_of merged"
    and snoc: "mergeMembers_loop strategy (symbols @ [s]) Map.empty []
               = mergeMembers_loop strategy [s] index_of merged"
    using mergeMembers_loop_snoc[OF index_inv_empty] by blast
  from assms(3) obtain i where i: "i < length merged" "merged ! i = kept"
    by (auto simp: in_set_conv_nth)
  then have idx: "index_of (name s) = Some i"
    using inv assms(4) unfolding index_inv_def by metis
  have proto: "name s \<notin> set objectPrototypeKeys"
    using inv assms(3,4) unfolding index_inv_def by metis
  have "mergeMembers_loop strategy [s] index_of merged = Inr (merged[i := s])"
    using idx proto i assms(5,6) by simp
  moreover have "merged[i := s] = map (\<lambda>m. if name m = name s then s else m) merged"
    using inv i assms(4) by (intro replace_by_name) (auto simp: index_inv_def)
  ultimately have 1: "mergeMembers (symbols @ [s]) strategy
         = Inr (map (\<lambda>m. if name m = name s then s else m) merged)"
    using snoc assms(1) by (simp add: mergeMembers_def)
  have 2: "s \<in> set (map (\<lambda>m. if name m = name s then s else m) merged)"
    using assms(3,4) by force
  have "kept \<noteq> s" using assms(5,6) by auto
  then have 3: "kept \<notin> set (map (\<lambda>m. if name m = name s then s else m) merged)"
    using assms(4) by auto
  from 1 2 3 show ?thesis by blast
qed

theorem mergeMembers_prefers_non_magic_witness:
  "mergeMembers
     ([member_symbol Method ''n'' {Public}, member_symbol Method ''m'' {Public, Magic}]
      @ [member_symbol Method ''m'' {Public}])
     Documented
   = Inr [member_symbol Method ''n'' {Public}, member_symbol Method ''m'' {Public}]"
  using mergeMembers_prefers_non_magic
    [of Documented
        "[member_symbol Method ''n'' {Public}, member_symbol Method ''m'' {Public, Magic}]"
        "[member_symbol Method ''n'' {Public}, member_symbol Method ''m'' {Public, Magic}]"
        "member_symbol Method ''m'' {Public, Magic}"
        "member_symbol Method ''m'' {Public}"]
  by (simp add: mergeMembers_def objectPrototypeKeys_def member_symbol_def)

section \<open>The Override strategy\<close>





lemma override_keeps_name:
  "override_keeps symbols n = Some kept \<Longrightarrow> name kept = n"
  by (auto simp: override_keeps_def find_Some_iff split: option.splits)




lemma mergeMembers_inherited_name:
  "strategy \<noteq> NoneStrategy
   \<Longrightarrow> mergeMembers [member_symbol Method ''toString'' {Public}] strategy = Inl TypeError"
  by (simp add: mergeMembers_def objectPrototypeKeys_def member_symbol_def)






section \<open>Interface and trait roots\<close>

lemma interfaceMembers_Undefined:
  "interfaceMembers var interfaces Undefined = Inr (concat (map children_or_empty interfaces))"
  by (induction interfaces)
     (auto simp: filter_children_def children_or_empty_def split: option.splits)

lemma interfaceMembers_Caller:
  "interfaceMembers var interfaces (Caller f)
   = Inr (filter f (concat (map children_or_empty interfaces)))"
  by (induction interfaces)
     (auto simp: filter_children_def children_or_empty_def split: option.splits)

text \<open>
  Claim C6. For a root that is an interface, \<open>members\<close> returns the children of the
  root followed by the children of every associated symbol, in order, with no merging by
  name, whatever the merge strategy; a root that is a trait is treated the same way.
  When the caller passes a predicate, the list is filtered by it.
\<close>

theorem members_interface_concat:
  assumes "kind (symbol agg) = Interface \<or> kind (symbol agg) = Trait"
  shows "members agg strategy predicate
         = Inr (filter (case predicate of None \<Rightarrow> (\<lambda>x. True) | Some f \<Rightarrow> f)
                  (concat (map children_or_empty (symbol agg # getAssociated agg))))"
  using assms
  by (cases predicate)
     (auto simp: members_def traitMembers_def interfaceMembers_Undefined interfaceMembers_Caller
           simp del: interfaceMembers.simps)

theorem members_interface_concat_witness:
  "members
     \<lparr>symbolStore =
        [(''I'', [classlike_symbol Interface ''I'' None
                    (Some [member_symbol Method ''m'' {Public, Abstract}])])],
      symbol = classlike_symbol Interface ''J'' (Some [stub_symbol ''I''])
                 (Some [member_symbol Method ''m'' {Public}])\<rparr>
     Override None
   = Inr [member_symbol Method ''m'' {Public}, member_symbol Method ''m'' {Public, Abstract}]"
  using members_interface_concat
    [of "\<lparr>symbolStore =
        [(''I'', [classlike_symbol Interface ''I'' None
                    (Some [member_symbol Method ''m'' {Public, Abstract}])])],
      symbol = classlike_symbol Interface ''J'' (Some [stub_symbol ''I''])
                 (Some [member_symbol Method ''m'' {Public}])\<rparr>" Override None]
  by (simp add: getAssociated_def find_store_def isClassLike_def children_or_empty_def
      classlike_symbol_def stub_symbol_def member_symbol_def)

section \<open>Use groups\<close>

lemma map_filter_Some: "List.map_filter (\<lambda>v. v) (map Some xs) = xs"
  by (induction xs) (simp_all add: List.map_filter_simps)

text \<open>
  The bodies of the private methods do what the claim says for elements that have an
  alias, and keep a rule without a name for an element whose popped alias is \<open>null\<close>: with
  the prefix \<open>P\<close>, the rule of the element with the path \<open>p\<close> and the popped alias \<open>a\<close> has
  the target \<open>P\<close>, the separator and \<open>p\<close>, the name \<open>a\<close>, and the kind of the flag of the
  group when that flag is one of class, function and constant, and of the flag of the
  element otherwise. An element is a triple of its flag, its path and its alias.
\<close>

lemma useGroup_rules:
  assumes "prefix \<noteq> []" and "\<forall>e \<in> set elements. fst (snd e) \<noteq> []"
  shows "postOrderUseGroup addRuleMany flag (Some prefix)
           (postOrderUseList (map (\<lambda>(f, p, a). postOrderUseElement f (Some p) a) elements))
           table
         = addRuleMany table
             (map (\<lambda>(f, p, a).
               \<lparr>kind_rule = (case useFlagToSymbolKind flag of
                               Some k \<Rightarrow> Some k
                             | None \<Rightarrow> useFlagToSymbolKind f),
                fqn = prefix @ separator @ p,
                name_rule = a\<rparr>) elements)"
proof -
  have eq: "map (\<lambda>(f, p, a). postOrderUseElement f (Some p) a) elements
        = map Some (map (\<lambda>(f, p, a). \<lparr>kind_rule = useFlagToSymbolKind f, fqn = p, name_rule = a\<rparr>) elements)"
    using assms(2) by (auto simp: postOrderUseElement_def)
  have "postOrderUseList (map (\<lambda>(f, p, a). postOrderUseElement f (Some p) a) elements)
        = map (\<lambda>(f, p, a). \<lparr>kind_rule = useFlagToSymbolKind f, fqn = p, name_rule = a\<rparr>) elements"
    unfolding postOrderUseList_def eq by (rule map_filter_Some)
  then show ?thesis
    using assms(1)
    by (auto simp: postOrderUseGroup_def split: option.splits
             intro!: arg_cong[where f = "addRuleMany table"])
qed

text \<open>
  The walk over a use group whose elements all have an alias, the prefix \<open>P\<close> with the
  path of \<open>a\<close> and \<open>b\<close> under the alias \<open>A\<close> and the path \<open>c\<close> under the alias \<open>C\<close>, adds
  the two rules, for every import table.
\<close>

lemma traverse_use_group_with_aliases:
  "traverse addRuleMany
     (Tree (NonTerminalValue UseGroup UseClass)
        [Tree (NonTerminalValue NamespaceName OtherFlag) [Tree (TokenValue ''P'') []],
         Tree (NonTerminalValue UseList OtherFlag)
           [Tree (NonTerminalValue UseElement OtherFlag)
              [Tree (NonTerminalValue NamespaceName OtherFlag)
                 [Tree (TokenValue ''a'') [], Tree (TokenValue ''b'') []],
               Tree (TokenValue ''A'') []],
            Tree (NonTerminalValue UseElement OtherFlag)
              [Tree (NonTerminalValue NamespaceName OtherFlag) [Tree (TokenValue ''c'') []],
               Tree (TokenValue ''C'') []]]])
     \<lparr>importTable = table, stack = [], active = 0\<rparr>
   = Inr \<lparr>importTable = addRuleMany table
            [\<lparr>kind_rule = Some Class,
               fqn = ''P'' @ separator @ ''a'' @ separator @ ''b'', name_rule = Some ''A''\<rparr>,
             \<lparr>kind_rule = Some Class,
               fqn = ''P'' @ separator @ ''c'', name_rule = Some ''C''\<rparr>],
          stack = [], active = 0\<rparr>"
  by (simp add: preOrder_def shouldDescend_def postOrder_def popMany_def postOrderUseElement_def
      postOrderUseGroup_def useFlagToSymbolKind_def Let_def)

text \<open>
  Inside a use statement or use group, \<open>postOrder\<close> throws at every node whose value is
  \<open>null\<close>.
\<close>

lemma postOrder_null_node:
  "1 \<le> active reader \<Longrightarrow> postOrder addRuleMany (Tree NullValue cs) reader = Inl TypeError"
  by (simp add: postOrder_def)

text \<open>
  Claim C7. Reading a use group with the prefix \<open>P\<close> should add, for each element, a
  rule to the import table, under the alias of the element or under the name of the
  element when it has no alias. For the example of the claim, the prefix \<open>P\<close> with the
  path of \<open>a\<close> and \<open>b\<close> under the alias \<open>A\<close> and the path \<open>c\<close> with no alias, the walk
  throws and nothing is added, for every import table: the place of the alias of \<open>c\<close> is
  a node whose value is \<open>null\<close> (\<open>_postOrderUseElement\<close> pops two values for every
  element), and \<open>postOrder\<close> reads a property of that value.
\<close>

theorem traverse_use_group_without_alias_throws:
  "traverse addRuleMany
     (Tree (NonTerminalValue UseGroup UseClass)
        [Tree (NonTerminalValue NamespaceName OtherFlag) [Tree (TokenValue ''P'') []],
         Tree (NonTerminalValue UseList OtherFlag)
           [Tree (NonTerminalValue UseElement OtherFlag)
              [Tree (NonTerminalValue NamespaceName OtherFlag)
                 [Tree (TokenValue ''a'') [], Tree (TokenValue ''b'') []],
               Tree (TokenValue ''A'') []],
            Tree (NonTerminalValue UseElement OtherFlag)
              [Tree (NonTerminalValue NamespaceName OtherFlag) [Tree (TokenValue ''c'') []],
               Tree NullValue []]]])
     \<lparr>importTable = table, stack = [], active = 0\<rparr>
   = Inl TypeError"
  by (simp add: preOrder_def shouldDescend_def postOrder_def popMany_def postOrderUseElement_def
      useFlagToSymbolKind_def)

section \<open>The docblock of a function or method\<close>

lemma set_type_sel [simp]:
  "type (set_type t s) = t" "name (set_type t s) = name s" "kind (set_type t s) = kind s"
  by (simp_all add: set_type_def)

lemma set_description_sel [simp]:
  "type (set_description d s) = type s" "name (set_description d s) = name s"
  "description (set_description d s) = d"
  by (simp_all add: set_description_def)

lemma paramMap_loop_Some:
  "paramMap_loop (map Some ps) k m
   = Inr (m ++ map_of (rev (zip (map name ps) [k..<k + length ps])))"
proof (induction ps arbitrary: k m)
  case Nil
  then show ?case by simp
next
  case (Cons p ps)
  have "[k..<k + length (p # ps)] = k # [Suc k..<Suc k + length ps]"
    using upt_conv_Cons[of k "k + length (p # ps)"] by (simp del: upt_Suc)
  then have "map_of (rev (zip (map name (p # ps)) [k..<k + length (p # ps)]))
             = [name p \<mapsto> k] ++ map_of (rev (zip (map name ps) [Suc k..<Suc k + length ps]))"
    by (simp only: list.map zip_Cons_Cons rev.simps map_of_append) simp
  then have eq: "m ++ map_of (rev (zip (map name (p # ps)) [k..<k + length (p # ps)]))
             = m(name p \<mapsto> k) ++ map_of (rev (zip (map name ps) [Suc k..<Suc k + length ps]))"
    by (simp only: map_add_assoc[symmetric]) simp
  have "paramMap_loop (map Some (p # ps)) k m
        = paramMap_loop (map Some ps) (Suc k) (m(name p \<mapsto> k))"
    by simp
  also have "\<dots> = Inr (m(name p \<mapsto> k)
                      ++ map_of (rev (zip (map name ps) [Suc k..<Suc k + length ps])))"
    by (rule Cons.IH)
  also have "\<dots> = Inr (m ++ map_of (rev (zip (map name (p # ps)) [k..<k + length (p # ps)])))"
    by (simp only: eq)
  finally show ?case .
qed

lemma param_index_less: "param_index ps n = Some i \<Longrightarrow> i < length ps"
  unfolding param_index_def by (auto dest!: map_of_SomeD set_zip_rightD)

lemma assign_param_Some:
  "i < length ps \<Longrightarrow>
   assign_param tag i (map Some ps)
   = map Some (ps[i := set_type (assigned_type (type (ps ! i)) (typeString tag))
                        (set_description (Some (description_tag tag)) (ps ! i))])"
  by (simp add: assign_param_def map_update)

lemma tags_loop_result:
  assumes "\<forall>n i. pm n = Some i \<longrightarrow> i < length ps"
  shows "\<exists>s' ps'. tags_loop pm tgs s (map Some ps) = (s', map Some ps')
     \<and> map name ps' = map name ps
     \<and> type s' = foldl assigned_type (type s)
                    (map typeString (filter (\<lambda>t. tagName t = ''@return'') tgs))
     \<and> (\<forall>i < length ps.
           type (ps' ! i) = foldl assigned_type (type (ps ! i))
             (map typeString
                (filter (\<lambda>t. tagName t = ''@param'' \<and> pm (name_tag t) = Some i) tgs)))"
  using assms
proof (induction tgs arbitrary: s ps)
  case Nil
  then show ?case by simp
next
  case (Cons tag tgs)
  consider (param_none) "tagName tag = ''@param''" "pm (name_tag tag) = None"
    | (param_some) j where "tagName tag = ''@param''" "pm (name_tag tag) = Some j"
    | (return) "tagName tag = ''@return''"
    | (other) "tagName tag \<noteq> ''@param''" "tagName tag \<noteq> ''@return''"
    by (cases "pm (name_tag tag)") auto
  then show ?case
  proof cases
    case param_none
    then show ?thesis using Cons.IH[OF Cons.prems, of s] by simp
  next
    case (param_some j)
    then have j: "j < length ps" using Cons.prems by blast
    let ?p = "set_type (assigned_type (type (ps ! j)) (typeString tag))
                (set_description (Some (description_tag tag)) (ps ! j))"
    let ?ps = "ps[j := ?p]"
    have len: "\<forall>n i. pm n = Some i \<longrightarrow> i < length ?ps" using Cons.prems by simp
    obtain s' ps' where r: "tags_loop pm tgs s (map Some ?ps) = (s', map Some ps')"
      "map name ps' = map name ?ps"
      "type s' = foldl assigned_type (type s)
                    (map typeString (filter (\<lambda>t. tagName t = ''@return'') tgs))"
      "\<forall>i < length ?ps.
           type (ps' ! i) = foldl assigned_type (type (?ps ! i))
             (map typeString
                (filter (\<lambda>t. tagName t = ''@param'' \<and> pm (name_tag t) = Some i) tgs))"
      using Cons.IH[OF len, of s] by blast
    have names: "map name ?ps = map name ps"
      using j by (simp add: map_update list_update_same_conv)
    have "tags_loop pm (tag # tgs) s (map Some ps) = (s', map Some ps')"
      using param_some j r(1) by (simp add: assign_param_Some)
    moreover have "map name ps' = map name ps" using r(2) names by simp
    moreover have "type s' = foldl assigned_type (type s)
                    (map typeString (filter (\<lambda>t. tagName t = ''@return'') (tag # tgs)))"
      using r(3) param_some by simp
    moreover have "\<forall>i < length ps.
           type (ps' ! i) = foldl assigned_type (type (ps ! i))
             (map typeString
                (filter (\<lambda>t. tagName t = ''@param'' \<and> pm (name_tag t) = Some i) (tag # tgs)))"
    proof (intro allI impI)
      fix i assume i: "i < length ps"
      show "type (ps' ! i) = foldl assigned_type (type (ps ! i))
             (map typeString
                (filter (\<lambda>t. tagName t = ''@param'' \<and> pm (name_tag t) = Some i) (tag # tgs)))"
        using r(4) i j param_some by (cases "i = j") simp_all
    qed
    ultimately show ?thesis by blast
  next
    case return
    then show ?thesis
      using Cons.IH[OF Cons.prems, of "set_type (assigned_type (type s) (typeString tag)) s"]
      by simp
  next
    case other
    then show ?thesis using Cons.IH[OF Cons.prems, of s] by simp
  qed
qed

text \<open>
  When every parameter has a name, the docblock is merged as the specification says: the
  type of a parameter after the call is its type before, changed once by each \<open>@param\<close>
  tag that names it, in the order of the tags, where a change sets the type to the type
  of the tag when the parameter has none and to the merge of its type with the type of
  the tag otherwise; the type of the function is changed in the same way by each
  \<open>@return\<close> tag. An \<open>@param\<close> tag that names no parameter changes nothing: the loop goes
  on with the same symbol and the same parameters.
\<close>

lemma assignFunctionOrMethodPhpDoc_types:
  assumes "parse (text_token token) = Some phpDoc"
  shows "\<exists>s' ps'. assignFunctionOrMethodPhpDoc parse s (map Some ps) (Some token)
                    = Inr (s', map Some ps')
     \<and> map name ps' = map name ps
     \<and> type s' = foldl assigned_type (type s)
                    (map typeString (filter (\<lambda>t. tagName t = ''@return'') (tags phpDoc)))
     \<and> (\<forall>i < length ps.
           type (ps' ! i) = foldl assigned_type (type (ps ! i))
             (map typeString
                (filter (\<lambda>t. tagName t = ''@param'' \<and> param_index ps (name_tag t) = Some i)
                   (tags phpDoc))))
     \<and> paramMap_loop (map Some ps) 0 Map.empty = Inr (param_index ps)
     \<and> (\<forall>tag rest s0 params0.
           tagName tag = ''@param'' \<and> param_index ps (name_tag tag) = None
           \<longrightarrow> tags_loop (param_index ps) (tag # rest) s0 params0
               = tags_loop (param_index ps) rest s0 params0)"
proof -
  have pm: "paramMap_loop (map Some ps) 0 Map.empty = Inr (param_index ps)"
    using paramMap_loop_Some[of ps 0 Map.empty] by (simp add: param_index_def)
  have "\<forall>n i. param_index ps n = Some i \<longrightarrow> i < length ps"
    using param_index_less by blast
  from tags_loop_result[OF this, of "tags phpDoc" "set_description (Some (summary phpDoc)) s"]
  show ?thesis
    using assms pm by (simp add: assignFunctionOrMethodPhpDoc_def)
qed

lemma assignFunctionOrMethodPhpDoc_types_example:
  "\<exists>s' ps'.
     assignFunctionOrMethodPhpDoc
       (\<lambda>text. Some \<lparr>summary = ''Adds.'',
           tags = [\<lparr>tagName = ''@param'', name_tag = ''$a'', description_tag = [],
                    typeString = ''int''\<rparr>,
                   \<lparr>tagName = ''@param'', name_tag = ''$b'', description_tag = [],
                    typeString = ''float''\<rparr>,
                   \<lparr>tagName = ''@param'', name_tag = ''$c'', description_tag = [],
                    typeString = ''bool''\<rparr>,
                   \<lparr>tagName = ''@return'', name_tag = [], description_tag = [],
                    typeString = ''int''\<rparr>]\<rparr>)
       (member_symbol Function ''add'' {})
       (map Some [member_symbol Parameter ''$a'' {},
                  set_type (Some (TypeString_new ''int'')) (member_symbol Parameter ''$b'' {})])
       (Some \<lparr>text_token = ''/** Adds. */''\<rparr>)
     = Inr (s', map Some ps')
     \<and> type s' = Some (TypeString_new ''int'')
     \<and> type (ps' ! 0) = Some (TypeString_new ''int'')
     \<and> type (ps' ! 1) = Some (TypeString_merge (TypeString_new ''int'') ''float'')"
proof -
  let ?doc = "\<lparr>summary = ''Adds.'',
           tags = [\<lparr>tagName = ''@param'', name_tag = ''$a'', description_tag = [],
                    typeString = ''int''\<rparr>,
                   \<lparr>tagName = ''@param'', name_tag = ''$b'', description_tag = [],
                    typeString = ''float''\<rparr>,
                   \<lparr>tagName = ''@param'', name_tag = ''$c'', description_tag = [],
                    typeString = ''bool''\<rparr>,
                   \<lparr>tagName = ''@return'', name_tag = [], description_tag = [],
                    typeString = ''int''\<rparr>]\<rparr>"
  let ?ps = "[member_symbol Parameter ''$a'' {},
              set_type (Some (TypeString_new ''int'')) (member_symbol Parameter ''$b'' {})]"
  have idx: "param_index ?ps ''$a'' = Some 0" "param_index ?ps ''$b'' = Some 1"
    "param_index ?ps ''$c'' = None"
    by (simp_all add: param_index_def member_symbol_def upt_rec)
  have "(\<lambda>text. Some ?doc) (text_token \<lparr>text_token = ''/** Adds. */''\<rparr>) = Some ?doc"
    by simp
  from assignFunctionOrMethodPhpDoc_types
    [of "\<lambda>text. Some ?doc" "\<lparr>text_token = ''/** Adds. */''\<rparr>" ?doc
        "member_symbol Function ''add'' {}" ?ps, OF this]
  obtain s' ps' where r:
    "assignFunctionOrMethodPhpDoc (\<lambda>text. Some ?doc) (member_symbol Function ''add'' {})
       (map Some ?ps) (Some \<lparr>text_token = ''/** Adds. */''\<rparr>) = Inr (s', map Some ps')"
    "type s' = foldl assigned_type (type (member_symbol Function ''add'' {}))
                 (map typeString (filter (\<lambda>t. tagName t = ''@return'') (tags ?doc)))"
    "\<forall>i < length ?ps.
       type (ps' ! i) = foldl assigned_type (type (?ps ! i))
         (map typeString
            (filter (\<lambda>t. tagName t = ''@param'' \<and> param_index ?ps (name_tag t) = Some i)
               (tags ?doc)))"
    by blast
  have "type s' = Some (TypeString_new ''int'')"
    using r(2) by (simp add: assigned_type_def member_symbol_def)
  moreover have "type (ps' ! 0) = Some (TypeString_new ''int'')"
    using r(3)[rule_format, of 0] idx by (simp add: assigned_type_def member_symbol_def)
  moreover have "type (ps' ! 1) = Some (TypeString_merge (TypeString_new ''int'') ''float'')"
    using r(3)[rule_format, of 1] idx by (simp add: assigned_type_def member_symbol_def)
  ultimately show ?thesis using r(1) by blast
qed

lemma paramMap_loop_null:
  "None \<in> set params \<Longrightarrow> paramMap_loop params n paramMap = Inl TypeError"
  by (induction params n paramMap rule: paramMap_loop.induct) auto

text \<open>
  A parameter without a name is a \<open>null\<close> in \<open>params\<close>: \<open>_postOrderParameter\<close> pushes
  \<open>null\<close> for it and the parameter list keeps it. \<open>_assignFunctionOrMethodParameters\<close>
  skips it; \<open>_assignFunctionOrMethodPhpDoc\<close> reads its \<open>value\<close> and throws, before any
  tag is looked at.
\<close>

lemma assignFunctionOrMethodPhpDoc_null_param:
  "parse (text_token token) = Some phpDoc \<Longrightarrow> None \<in> set params
   \<Longrightarrow> assignFunctionOrMethodPhpDoc parse s params (Some token) = Inl TypeError"
  by (simp add: assignFunctionOrMethodPhpDoc_def paramMap_loop_null)

text \<open>
  Claim C8. When a docblock is attached to a function or method, each \<open>@param\<close> tag that
  names a parameter should set the type of that parameter, or merge it with the type it
  has. For a function \<open>add\<close> with the parameter \<open>$a\<close>, a second parameter without a name,
  and the docblock tag \<open>@param int $a\<close>, the call throws and the type of \<open>$a\<close> is not
  set.
\<close>

theorem assignFunctionOrMethodPhpDoc_nameless_parameter_throws:
  "assignFunctionOrMethodPhpDoc
     (\<lambda>comment. Some \<lparr>summary = ''Adds.'',
         tags = [\<lparr>tagName = ''@param'', name_tag = ''$a'', description_tag = [],
                  typeString = ''int''\<rparr>]\<rparr>)
     (member_symbol Function ''add'' {})
     [Some (member_symbol Parameter ''$a'' {}), None]
     (Some \<lparr>text_token = ''/** Adds. */''\<rparr>)
   = Inl TypeError"
  by (simp add: assignFunctionOrMethodPhpDoc_def)

section \<open>The parsed document store\<close>

lemma subscribed_inv_new: "subscribed_inv ParsedDocumentStore_new"
  by (simp add: subscribed_inv_def ParsedDocumentStore_new_def)

lemma subscribed_inv_add: "subscribed_inv store \<Longrightarrow> subscribed_inv (snd (add store d))"
  by (auto simp: subscribed_inv_def add_def has_def)

lemma subscribed_inv_remove: "subscribed_inv store \<Longrightarrow> subscribed_inv (snd (remove store u))"
  by (auto simp: subscribed_inv_def remove_def has_def split: option.splits)

text \<open>
  Claim C9. \<open>add\<close> of a document whose URI the store has raises \<open>Duplicate key\<close> and
  leaves the store as it was; \<open>add\<close> of a document whose URI the store does not have
  raises nothing and stores the document; and after \<open>remove\<close> of the URI, which raises
  nothing, the store does not have the URI and \<open>add\<close> succeeds.
\<close>

theorem add_duplicate_raises:
  "(has store (uri d) \<longrightarrow> add store d = (Some DuplicateKey, store))
   \<and> (\<not> has store (uri d) \<longrightarrow>
        fst (add store d) = None \<and> parsedDocumentmap (snd (add store d)) (uri d) = Some d)
   \<and> (subscribed_inv store \<longrightarrow>
        fst (remove store (uri d)) = None
        \<and> \<not> has (snd (remove store (uri d))) (uri d)
        \<and> fst (add (snd (remove store (uri d))) d) = None
        \<and> parsedDocumentmap (snd (add (snd (remove store (uri d))) d)) (uri d) = Some d)
   \<and> subscribed_inv ParsedDocumentStore_new
   \<and> (subscribed_inv store \<longrightarrow>
        subscribed_inv (snd (add store d)) \<and> subscribed_inv (snd (remove store u)))"
proof -
  have "subscribed_inv store \<longrightarrow>
        subscribed_inv (snd (add store d)) \<and> subscribed_inv (snd (remove store u))"
    using subscribed_inv_add subscribed_inv_remove by blast
  moreover have "(has store (uri d) \<longrightarrow> add store d = (Some DuplicateKey, store))
   \<and> (\<not> has store (uri d) \<longrightarrow>
        fst (add store d) = None \<and> parsedDocumentmap (snd (add store d)) (uri d) = Some d)
   \<and> (subscribed_inv store \<longrightarrow>
        fst (remove store (uri d)) = None
        \<and> \<not> has (snd (remove store (uri d))) (uri d)
        \<and> fst (add (snd (remove store (uri d))) d) = None
        \<and> parsedDocumentmap (snd (add (snd (remove store (uri d))) d)) (uri d) = Some d)"
    by (auto simp: add_def remove_def has_def subscribed_inv_def split: option.splits)
  ultimately show ?thesis
    using subscribed_inv_new by blast
qed

theorem add_duplicate_raises_witness:
  "add (snd (add ParsedDocumentStore_new \<lparr>uri = ''file:///a.php'', doc_text = ''<?php''\<rparr>))
       \<lparr>uri = ''file:///a.php'', doc_text = ''<?php echo 1;''\<rparr>
   = (Some DuplicateKey,
      snd (add ParsedDocumentStore_new \<lparr>uri = ''file:///a.php'', doc_text = ''<?php''\<rparr>))
   \<and> fst (add (snd (remove
                (snd (add ParsedDocumentStore_new
                        \<lparr>uri = ''file:///a.php'', doc_text = ''<?php''\<rparr>))
                ''file:///a.php''))
            \<lparr>uri = ''file:///a.php'', doc_text = ''<?php echo 1;''\<rparr>)
     = None"
proof -
  let ?store = "snd (add ParsedDocumentStore_new \<lparr>uri = ''file:///a.php'', doc_text = ''<?php''\<rparr>)"
  let ?d = "\<lparr>uri = ''file:///a.php'', doc_text = ''<?php echo 1;''\<rparr>"
  have "has ?store (uri ?d)"
    by (simp add: has_def add_def ParsedDocumentStore_new_def)
  moreover have "subscribed_inv ?store"
    by (intro subscribed_inv_add subscribed_inv_new)
  ultimately show ?thesis
    using add_duplicate_raises [of ?store ?d] by simp
qed

section \<open>Opening a document\<close>

text \<open>
  Claim C10. \<open>openDocument\<close> does nothing when the language of the document is not
  \<open>php\<close> or the document store has its URI: the document store, the symbol store and the
  diagnostics provider are as before, and no symbol table is created. In every other
  case a symbol table is created from the document and the document store has the URI
  afterwards.
\<close>

theorem openDocument_noop:
  "(languageId textDocument \<noteq> ''php'' \<or> has (documentStore state) (uri_item textDocument)
      \<longrightarrow> openDocument c textDocument state = Inr (state, None))
   \<and> (languageId textDocument = ''php'' \<and> \<not> has (documentStore state) (uri_item textDocument)
      \<longrightarrow> (\<exists>state'. openDocument c textDocument state
              = Inr (state', Some (SymbolTable_create c
                       \<lparr>uri = uri_item textDocument, doc_text = text_item textDocument\<rparr>))
            \<and> has (documentStore state') (uri_item textDocument)))"
  by (auto simp: openDocument_def phpLanguageId_def add_def has_def Let_def)

theorem openDocument_noop_witness:
  "openDocument
     \<lparr>SymbolTable_create = (\<lambda>d. uri d), SymbolTable_uri = (\<lambda>t. t),
      SymbolStore_remove = (\<lambda>s u. removeAll u s), SymbolStore_add = (\<lambda>s t. t # s),
      DiagnosticsProvider_add = (\<lambda>d doc. uri doc # d)\<rparr>
     \<lparr>uri_item = ''file:///a.txt'', languageId = ''plaintext'', text_item = ''hello''\<rparr>
     \<lparr>documentStore = ParsedDocumentStore_new, symbolStore' = [], diagnosticsProvider = []\<rparr>
   = Inr (\<lparr>documentStore = ParsedDocumentStore_new, symbolStore' = [], diagnosticsProvider = []\<rparr>,
          None)
   \<and> (\<exists>state'.
        openDocument
          \<lparr>SymbolTable_create = (\<lambda>d. uri d), SymbolTable_uri = (\<lambda>t. t),
           SymbolStore_remove = (\<lambda>s u. removeAll u s), SymbolStore_add = (\<lambda>s t. t # s),
           DiagnosticsProvider_add = (\<lambda>d doc. uri doc # d)\<rparr>
          \<lparr>uri_item = ''file:///a.php'', languageId = ''php'', text_item = ''<?php''\<rparr>
          \<lparr>documentStore = ParsedDocumentStore_new, symbolStore' = [], diagnosticsProvider = []\<rparr>
        = Inr (state', Some ''file:///a.php'')
        \<and> openDocument
          \<lparr>SymbolTable_create = (\<lambda>d. uri d), SymbolTable_uri = (\<lambda>t. t),
           SymbolStore_remove = (\<lambda>s u. removeAll u s), SymbolStore_add = (\<lambda>s t. t # s),
           DiagnosticsProvider_add = (\<lambda>d doc. uri doc # d)\<rparr>
          \<lparr>uri_item = ''file:///a.php'', languageId = ''php'', text_item = ''<?php echo 1;''\<rparr>
          state'
        = Inr (state', None))"
proof -
  let ?c = "\<lparr>SymbolTable_create = (\<lambda>d. uri d), SymbolTable_uri = (\<lambda>t. t),
      SymbolStore_remove = (\<lambda>s u. removeAll u s), SymbolStore_add = (\<lambda>s t. t # s),
      DiagnosticsProvider_add = (\<lambda>d doc. uri doc # d)\<rparr>
      :: (string, string list, string list) Collaborators"
  let ?state = "\<lparr>documentStore = ParsedDocumentStore_new, symbolStore' = [],
      diagnosticsProvider = []\<rparr> :: (string list, string list) Intelephense"
  let ?txt = "\<lparr>uri_item = ''file:///a.txt'', languageId = ''plaintext'', text_item = ''hello''\<rparr>"
  let ?php = "\<lparr>uri_item = ''file:///a.php'', languageId = ''php'', text_item = ''<?php''\<rparr>"
  let ?php2 = "\<lparr>uri_item = ''file:///a.php'', languageId = ''php'', text_item = ''<?php echo 1;''\<rparr>"
  have 1: "openDocument ?c ?txt ?state = Inr (?state, None)"
    using openDocument_noop [of ?txt ?state ?c] by simp
  have "languageId ?php = ''php'' \<and> \<not> has (documentStore ?state) (uri_item ?php)"
    by (simp add: has_def ParsedDocumentStore_new_def)
  with openDocument_noop [of ?php ?state ?c]
  obtain state' where s: "openDocument ?c ?php ?state = Inr (state', Some ''file:///a.php'')"
    "has (documentStore state') (uri_item ?php)"
    by auto
  then have "openDocument ?c ?php2 state' = Inr (state', None)"
    using openDocument_noop [of ?php2 state' ?c] by simp
  with 1 s(1) show ?thesis by blast
qed

end
